theory Spec2Isabelle
  imports Main
begin

section \<open>The request builder of \<^verbatim>\<open>apis/api_builder.py\<close>\<close>

text \<open>
  \<^verbatim>\<open>EndpointsBuilder\<close> holds the configuration of one outbound request and
  \<^verbatim>\<open>make_remote_call\<close> performs it. The class calls into collaborators that are not
  part of the file: \<^verbatim>\<open>urllib.parse.urlparse\<close>, \<^verbatim>\<open>create_request_log\<close>,
  \<^verbatim>\<open>make_post_request\<close>, the two callbacks, \<^verbatim>\<open>update_last_request_date\<close>,
  \<^verbatim>\<open>etims_logger.exception\<close> and \<^verbatim>\<open>frappe.throw\<close>.

  The model records every call to a collaborator as an event of a trace, in the order the
  calls are made, and returns the trace together with the builder after the call and the
  outcome: \<open>Inr ()\<close> when the method returns, \<open>Inl e\<close> when it raises \<open>e\<close>. The
  trace says what was done before the method returned or raised.

  What the collaborators answer is a parameter (the record \<open>env\<close>). The callbacks, the
  request log, the tracker and the logger are taken to return normally and to leave the
  builder alone; the network helper either returns a response or raises.

  Python strings are modelled as \<open>string\<close>, whose characters are the code points below 256.
\<close>

subsection \<open>Values\<close>

datatype json =
    JNull
  | JBool bool
  | JNum int
  | JStr string
  | JArr "json list"
  | JObj "(string \<times> json) list"

type_synonym dict = "string \<rightharpoonup> json"

text \<open>A callback is known by the identity of the function object.\<close>

type_synonym callable = nat

text \<open>The \<^verbatim>\<open>doctype\<close> argument: a \<^verbatim>\<open>Document\<close> object or the doctype's name.\<close>

datatype doctype_arg = DocumentObj nat | DoctypeStr string

text \<open>
  What \<^verbatim>\<open>make_post_request\<close> may raise. \<^verbatim>\<open>ClientConnectorError\<close> is a subclass of
  \<^verbatim>\<open>ClientOSError\<close> in aiohttp; \<open>OtherException\<close> stands for any exception that is an
  instance of none of the three classes the method catches.
\<close>

datatype exception = ClientConnectorError | ClientOSError | TimeoutError | OtherException

fun isinstance_ClientConnectorError :: "exception \<Rightarrow> bool" where
  "isinstance_ClientConnectorError ClientConnectorError = True"
| "isinstance_ClientConnectorError _ = False"

fun isinstance_ClientOSError :: "exception \<Rightarrow> bool" where
  "isinstance_ClientOSError ClientConnectorError = True"
| "isinstance_ClientOSError ClientOSError = True"
| "isinstance_ClientOSError _ = False"

fun isinstance_TimeoutError :: "exception \<Rightarrow> bool" where
  "isinstance_TimeoutError TimeoutError = True"
| "isinstance_TimeoutError _ = False"

text \<open>The second argument of \<^verbatim>\<open>frappe.throw\<close>: an exception class or the caught instance.\<close>

datatype exc_arg = MandatoryError | Instance exception

text \<open>
  What the method can raise: the error of \<^verbatim>\<open>frappe.throw(msg, exc, title, is_minimizable)\<close>,
  the \<^verbatim>\<open>ValueError\<close> of \<^verbatim>\<open>urlparse\<close>, the \<^verbatim>\<open>KeyError\<close> of a subscript on the
  response, the \<^verbatim>\<open>IndexError\<close> of a subscript on a list, and an exception of the network
  helper that no \<^verbatim>\<open>except\<close> clause catches.
\<close>

datatype error =
    Thrown string exc_arg string bool
  | ValueError
  | KeyError string
  | IndexError
  | Uncaught exception

text \<open>The keyword arguments of \<^verbatim>\<open>create_request_log\<close>.\<close>

record request_log_args =
  data :: "dict option"
  is_remote_request :: bool
  service_name :: string
  request_headers :: dict
  url :: string
  reference_docname :: "string option"
  reference_doctype :: "doctype_arg option"

datatype event =
    CreateRequestLog request_log_args
  | MakePostRequest string "dict option" dict
  | SuccessCallback callable dict
  | UpdateLastRequestDate json string
  | ErrorCallback callable dict string "doctype_arg option" "string option" string
  | LoggerException exception bool

text \<open>
  The answers of the collaborators: whether \<^verbatim>\<open>_check_bracketed_host\<close> and the
  normalisation test of \<^verbatim>\<open>_checknetloc\<close> (both inside \<^verbatim>\<open>urlsplit\<close>) accept their
  argument, the \<^verbatim>\<open>name\<close> of the document \<^verbatim>\<open>create_request_log\<close> returns, and what
  \<^verbatim>\<open>asyncio.run(make_post_request(url, payload, headers))\<close> returns or raises.
\<close>

record env =
  check_bracketed_host :: "string \<Rightarrow> bool"
  nfkc_check :: "string \<Rightarrow> bool"
  create_request_log :: "request_log_args \<Rightarrow> string"
  make_post_request :: "string \<Rightarrow> dict option \<Rightarrow> dict \<Rightarrow> exception + dict"

subsection \<open>The builder and its properties\<close>

record builder =
  f_method :: string
  f_url :: "string option"
  f_payload :: "dict option"
  f_headers :: "dict option"
  f_error :: "string option"
  f_success_callback_handler :: "callable option"
  f_error_callback_handler :: "callable option"

definition init :: builder where
  "init = \<lparr> f_method = ''POST'', f_url = None, f_payload = None, f_headers = None,
            f_error = None, f_success_callback_handler = None,
            f_error_callback_handler = None \<rparr>"

definition get_method :: "builder \<Rightarrow> string" where
  "get_method b = f_method b"

definition set_method :: "string \<Rightarrow> builder \<Rightarrow> builder" where
  "set_method new_method b = b\<lparr>f_method := new_method\<rparr>"

definition get_url :: "builder \<Rightarrow> string option" where
  "get_url b = f_url b"

definition set_url :: "string \<Rightarrow> builder \<Rightarrow> builder" where
  "set_url new_url b = b\<lparr>f_url := Some new_url\<rparr>"

definition get_payload :: "builder \<Rightarrow> dict option" where
  "get_payload b = f_payload b"

definition set_payload :: "dict \<Rightarrow> builder \<Rightarrow> builder" where
  "set_payload new_payload b = b\<lparr>f_payload := Some new_payload\<rparr>"

definition get_error :: "builder \<Rightarrow> string option" where
  "get_error b = f_error b"

definition set_error :: "string \<Rightarrow> builder \<Rightarrow> builder" where
  "set_error new_error b = b\<lparr>f_error := Some new_error\<rparr>"

definition get_headers :: "builder \<Rightarrow> dict option" where
  "get_headers b = f_headers b"

definition set_headers :: "dict \<Rightarrow> builder \<Rightarrow> builder" where
  "set_headers new_headers b = b\<lparr>f_headers := Some new_headers\<rparr>"

definition get_success_callback :: "builder \<Rightarrow> callable option" where
  "get_success_callback b = f_success_callback_handler b"

definition set_success_callback :: "callable \<Rightarrow> builder \<Rightarrow> builder" where
  "set_success_callback callback b = b\<lparr>f_success_callback_handler := Some callback\<rparr>"

definition get_error_callback :: "builder \<Rightarrow> callable option" where
  "get_error_callback b = f_error_callback_handler b"

definition set_error_callback :: "callable \<Rightarrow> builder \<Rightarrow> builder" where
  "set_error_callback callback b = b\<lparr>f_error_callback_handler := Some callback\<rparr>"

text \<open>The enumerated verbs: the default and the literals of the setter's annotation.\<close>

definition enumerated_verbs :: "string list" where
  "enumerated_verbs = [''POST'', ''GET'', ''PUT'', ''PATCH'']"

subsection \<open>\<^verbatim>\<open>urlparse(url).path\<close>\<close>

definition scheme_chars :: string where
  "scheme_chars =
     ''abcdefghijklmnopqrstuvwxyzABCDEFGHIJKLMNOPQRSTUVWXYZ0123456789+-.''"

definition ascii_letters_lower :: string where
  "ascii_letters_lower = ''abcdefghijklmnopqrstuvwxyz''"

definition ascii_letters_upper :: string where
  "ascii_letters_upper = ''ABCDEFGHIJKLMNOPQRSTUVWXYZ''"

definition uses_params :: "string list" where
  "uses_params = ['''', ''ftp'', ''hdl'', ''prospero'', ''http'', ''imap'', ''https'',
     ''shttp'', ''rtsp'', ''rtsps'', ''rtspu'', ''sip'', ''sips'', ''mms'', ''sftp'',
     ''tel'']"

definition is_ascii_alpha :: "char \<Rightarrow> bool" where
  "is_ascii_alpha c = (c \<in> set ascii_letters_lower \<or> c \<in> set ascii_letters_upper)"

definition is_ascii :: "char \<Rightarrow> bool" where
  "is_ascii c = ((of_char c :: nat) < 128)"

definition lower :: "char \<Rightarrow> char" where
  "lower c = (case map_of (zip ascii_letters_upper ascii_letters_lower) c of
                Some l \<Rightarrow> l | None \<Rightarrow> c)"

text \<open>\<^verbatim>\<open>url.lstrip(_WHATWG_C0_CONTROL_OR_SPACE)\<close>, then the removal of tab, CR and LF.\<close>

definition lstrip_c0 :: "string \<Rightarrow> string" where
  "lstrip_c0 u = dropWhile (\<lambda>c. (of_char c :: nat) \<le> 32) u"

definition remove_unsafe :: "string \<Rightarrow> string" where
  "remove_unsafe u = filter (\<lambda>c. c \<noteq> CHR 0x09 \<and> c \<noteq> CHR 0x0D \<and> c \<noteq> CHR 0x0A) u"

text \<open>The scheme, lower-cased, and the rest of the URL; the scheme is empty when none is found.\<close>

definition split_scheme :: "string \<Rightarrow> string \<times> string" where
  "split_scheme u =
     (let pre = takeWhile (\<lambda>c. c \<noteq> CHR '':'') u in
      if CHR '':'' \<in> set u \<and> pre \<noteq> [] \<and> is_ascii (hd u) \<and> is_ascii_alpha (hd u)
         \<and> list_all (\<lambda>c. c \<in> set scheme_chars) pre
      then (map lower pre, drop (Suc (length pre)) u)
      else ([], u))"

definition netloc_delim :: "char \<Rightarrow> bool" where
  "netloc_delim c = (c = CHR ''/'' \<or> c = CHR ''?'' \<or> c = CHR ''#'')"

text \<open>\<^verbatim>\<open>_splitnetloc(url, 2)\<close> when the URL starts with two slashes.\<close>

definition splitnetloc :: "string \<Rightarrow> string \<times> string" where
  "splitnetloc u =
     (if take 2 u = ''//''
      then (takeWhile (\<lambda>c. \<not> netloc_delim c) (drop 2 u),
            dropWhile (\<lambda>c. \<not> netloc_delim c) (drop 2 u))
      else ([], u))"

text \<open>\<^verbatim>\<open>netloc.partition('[')[2].partition(']')[0]\<close>\<close>

definition bracketed_host :: "string \<Rightarrow> string" where
  "bracketed_host netloc =
     takeWhile (\<lambda>c. c \<noteq> CHR '']'') (drop 1 (dropWhile (\<lambda>c. c \<noteq> CHR ''['') netloc))"

text \<open>
  \<^verbatim>\<open>_splitparams(url)[0]\<close>: the URL up to the first semicolon that follows the last
  slash, the whole URL when there is none.
\<close>

definition splitparams :: "string \<Rightarrow> string" where
  "splitparams u =
     (if CHR ''/'' \<in> set u
      then (let k = length u - Suc (length (takeWhile (\<lambda>c. c \<noteq> CHR ''/'') (rev u)))
            in take k u @ takeWhile (\<lambda>c. c \<noteq> CHR '';'') (drop k u))
      else takeWhile (\<lambda>c. c \<noteq> CHR '';'') u)"

text \<open>
  The \<^verbatim>\<open>path\<close> component of \<^verbatim>\<open>urlparse(url)\<close> for a \<^verbatim>\<open>str\<close>, following
  \<^verbatim>\<open>urlsplit\<close> and \<^verbatim>\<open>urlparse\<close> of CPython 3.11 step by step; the parser raises
  \<^verbatim>\<open>ValueError\<close> on a network location with an unmatched square bracket, with a
  bracketed host that \<^verbatim>\<open>_check_bracketed_host\<close> rejects, or with characters that
  \<^verbatim>\<open>_checknetloc\<close> rejects.
\<close>

definition urlparse_path :: "env \<Rightarrow> string \<Rightarrow> error + string" where
  "urlparse_path e url0 =
     (let u1 = remove_unsafe (lstrip_c0 url0);
          (scheme, u2) = split_scheme u1;
          (netloc, u3) = splitnetloc u2;
          lb = CHR ''['' \<in> set netloc;
          rb = CHR '']'' \<in> set netloc
      in if (lb \<and> \<not> rb) \<or> (rb \<and> \<not> lb) then Inl ValueError
         else if lb \<and> rb \<and> \<not> check_bracketed_host e (bracketed_host netloc)
         then Inl ValueError
         else
           (let u4 = takeWhile (\<lambda>c. c \<noteq> CHR ''#'') u3;
                u5 = takeWhile (\<lambda>c. c \<noteq> CHR ''?'') u4
            in if \<not> (netloc = [] \<or> list_all is_ascii netloc \<or> nfkc_check e netloc)
               then Inl ValueError
               else if scheme \<in> set uses_params \<and> CHR '';'' \<in> set u5
               then Inr (splitparams u5)
               else Inr u5))"

subsection \<open>The route path\<close>

text \<open>\<^verbatim>\<open>s.split(sep)\<close> for a separator of one character: one piece more than separators.\<close>

fun split :: "char \<Rightarrow> string \<Rightarrow> string list" where
  "split sep [] = [[]]"
| "split sep (c # cs) =
     (if c = sep then [] # split sep cs
      else (c # hd (split sep cs)) # tl (split sep cs))"

text \<open>\<^verbatim>\<open>xs[-1]\<close>: the last element, \<^verbatim>\<open>IndexError\<close> on an empty list.\<close>

definition index_last :: "'a list \<Rightarrow> error + 'a" where
  "index_last xs = (if xs = [] then Inl IndexError else Inr (last xs))"

text \<open>\<^verbatim>\<open>f"/{parsed_url.path.split('/')[-1]}"\<close>\<close>

definition route_path_of :: "string \<Rightarrow> error + string" where
  "route_path_of path =
     (case index_last (split CHR ''/'' path) of
        Inl err \<Rightarrow> Inl err
      | Inr seg \<Rightarrow> Inr (CHR ''/'' # seg))"

text \<open>Lines 98 and 99 together: the route path derived from the configured URL.\<close>

definition derive_route_path :: "env \<Rightarrow> string \<Rightarrow> error + string" where
  "derive_route_path e u =
     (case urlparse_path e u of
        Inl err \<Rightarrow> Inl err
      | Inr path \<Rightarrow> route_path_of path)"


subsection \<open>\<^verbatim>\<open>make_remote_call\<close>\<close>

text \<open>The three \<^verbatim>\<open>except\<close> clauses, tried in the order they are written.\<close>

definition handle_exception :: "exception \<Rightarrow> event list \<times> error" where
  "handle_exception ex =
     (if isinstance_ClientConnectorError ex
      then ([LoggerException ex True],
            Thrown ''Connection failed'' (Instance ex) ''Connection Error'' False)
      else if isinstance_ClientOSError ex
      then ([LoggerException ex True],
            Thrown ''Connection reset by peer'' (Instance ex) ''Connection Error'' False)
      else if isinstance_TimeoutError ex
      then ([LoggerException ex True],
            Thrown ''Timeout Encountered'' (Instance ex) ''Timeout Error'' False)
      else ([], Uncaught ex))"

text \<open>The body of the \<^verbatim>\<open>try\<close> block after the response has arrived.\<close>

definition classify ::
  "callable \<Rightarrow> callable \<Rightarrow> dict \<Rightarrow> string \<Rightarrow> doctype_arg option \<Rightarrow> string option \<Rightarrow> string
     \<Rightarrow> event list \<times> (error + unit)" where
  "classify success_cb error_cb response route_path doctype document_name log_name =
     (case response ''resultCd'' of
        None \<Rightarrow> ([], Inl (KeyError ''resultCd''))
      | Some cd \<Rightarrow>
          if cd = JStr ''000''
          then (case response ''resultDt'' of
                  None \<Rightarrow> ([SuccessCallback success_cb response], Inl (KeyError ''resultDt''))
                | Some dt \<Rightarrow>
                    ([SuccessCallback success_cb response,
                      UpdateLastRequestDate dt route_path], Inr ()))
          else ([ErrorCallback error_cb response route_path doctype document_name log_name],
                Inr ()))"

definition setup_error :: error where
  "setup_error =
     Thrown ''Please check that all required request parameters are supplied.''
       MandatoryError ''Setup Error'' True"

definition make_remote_call ::
  "env \<Rightarrow> builder \<Rightarrow> doctype_arg option \<Rightarrow> string option
     \<Rightarrow> builder \<times> event list \<times> (error + unit)" where
  "make_remote_call e b doctype document_name =
     (case (f_url b, f_headers b, f_success_callback_handler b, f_error_callback_handler b) of
        (Some u, Some hs, Some success_cb, Some error_cb) \<Rightarrow>
          (case derive_route_path e u of
             Inl err \<Rightarrow> (b, [], Inl err)
           | Inr route_path \<Rightarrow>
               (let args = \<lparr> data = f_payload b, is_remote_request = True,
                             service_name = ''etims'', request_headers = hs, url = u,
                             reference_docname = document_name,
                             reference_doctype = doctype \<rparr>;
                    log_name = create_request_log e args;
                    before = [CreateRequestLog args, MakePostRequest u (f_payload b) hs]
                in case make_post_request e u (f_payload b) hs of
                     Inl ex \<Rightarrow>
                       (b, before @ fst (handle_exception ex), Inl (snd (handle_exception ex)))
                   | Inr response \<Rightarrow>
                       (let (evs, res) = classify success_cb error_cb response route_path
                                           doctype document_name log_name
                        in (b, before @ evs, res))))
      | _ \<Rightarrow> (b, [], Inl setup_error))"

text \<open>The operations of the class, and the builder after one of them.\<close>

datatype operation =
    SetMethod string
  | SetUrl string
  | SetPayload dict
  | SetError string
  | SetHeaders dict
  | SetSuccessCallback callable
  | SetErrorCallback callable
  | Getter
  | MakeRemoteCall "doctype_arg option" "string option"

fun perform :: "env \<Rightarrow> operation \<Rightarrow> builder \<Rightarrow> builder" where
  "perform e (SetMethod v) b = set_method v b"
| "perform e (SetUrl v) b = set_url v b"
| "perform e (SetPayload v) b = set_payload v b"
| "perform e (SetError v) b = set_error v b"
| "perform e (SetHeaders v) b = set_headers v b"
| "perform e (SetSuccessCallback v) b = set_success_callback v b"
| "perform e (SetErrorCallback v) b = set_error_callback v b"
| "perform e Getter b = b"
| "perform e (MakeRemoteCall doctype document_name) b =
     fst (make_remote_call e b doctype document_name)"

text \<open>Observations on a trace.\<close>

fun is_success_call :: "event \<Rightarrow> bool" where
  "is_success_call (SuccessCallback _ _) = True"
| "is_success_call _ = False"

fun is_error_call :: "event \<Rightarrow> bool" where
  "is_error_call (ErrorCallback _ _ _ _ _ _) = True"
| "is_error_call _ = False"

fun is_tracker_update :: "event \<Rightarrow> bool" where
  "is_tracker_update (UpdateLastRequestDate _ _) = True"
| "is_tracker_update _ = False"

fun is_request_log :: "event \<Rightarrow> bool" where
  "is_request_log (CreateRequestLog _) = True"
| "is_request_log _ = False"

fun is_network_call :: "event \<Rightarrow> bool" where
  "is_network_call (MakePostRequest _ _ _) = True"
| "is_network_call _ = False"

fun is_logger_call :: "event \<Rightarrow> bool" where
  "is_logger_call (LoggerException _ _) = True"
| "is_logger_call _ = False"

definition count :: "(event \<Rightarrow> bool) \<Rightarrow> event list \<Rightarrow> nat" where
  "count p tr = length (filter p tr)"

definition trace_of :: "builder \<times> event list \<times> (error + unit) \<Rightarrow> event list" where
  "trace_of r = fst (snd r)"

definition outcome_of :: "builder \<times> event list \<times> (error + unit) \<Rightarrow> error + unit" where
  "outcome_of r = snd (snd r)"

text \<open>A concrete environment and a configured builder, for evaluation.\<close>

definition response_ok :: dict where
  "response_ok = [''resultCd'' \<mapsto> JStr ''000'', ''resultDt'' \<mapsto> JStr ''20240101120000'']"

definition response_err :: dict where
  "response_err = [''resultCd'' \<mapsto> JStr ''910'', ''resultMsg'' \<mapsto> JStr ''Invalid'']"

text \<open>A response that reports success and carries no \<^verbatim>\<open>resultDt\<close>.\<close>

definition response_no_date :: dict where
  "response_no_date = [''resultCd'' \<mapsto> JStr ''000'']"

definition env_of :: "(exception + dict) \<Rightarrow> env" where
  "env_of answer =
     \<lparr> check_bracketed_host = (\<lambda>_. True), nfkc_check = (\<lambda>_. True),
       create_request_log = (\<lambda>_. ''log-0001''),
       make_post_request = (\<lambda>_ _ _. answer) \<rparr>"

definition example_url :: string where
  "example_url = ''https://host/api/v1/endpointName''"

definition example_headers :: dict where
  "example_headers = [''Content-Type'' \<mapsto> JStr ''application/json'']"

definition configured :: builder where
  "configured =
     set_error_callback 2 (set_success_callback 1 (set_headers example_headers
       (set_url example_url init)))"

section \<open>Lemmas shared by the claims\<close>

subsection \<open>Splitting a path\<close>










subsection \<open>The paths through \<^verbatim>\<open>make_remote_call\<close>\<close>

lemma mrc_setup:
  assumes "f_url b = None \<or> f_headers b = None \<or> f_success_callback_handler b = None
           \<or> f_error_callback_handler b = None"
  shows "make_remote_call e b dt dn = (b, [], Inl setup_error)"
  using assms by (auto simp: make_remote_call_def split: option.splits)

lemma mrc_parse_error:
  assumes "f_url b = Some u" "f_headers b = Some hs"
    "f_success_callback_handler b = Some scb" "f_error_callback_handler b = Some ecb"
    "derive_route_path e u = Inl err"
  shows "make_remote_call e b dt dn = (b, [], Inl err)"
  using assms by (simp add: make_remote_call_def)

lemma mrc_fault:
  assumes "f_url b = Some u" "f_headers b = Some hs"
    "f_success_callback_handler b = Some scb" "f_error_callback_handler b = Some ecb"
    "derive_route_path e u = Inr rp"
    "make_post_request e u (f_payload b) hs = Inl ex"
  shows "make_remote_call e b dt dn =
     (b, [CreateRequestLog \<lparr> data = f_payload b, is_remote_request = True,
             service_name = ''etims'', request_headers = hs, url = u,
             reference_docname = dn, reference_doctype = dt \<rparr>,
          MakePostRequest u (f_payload b) hs] @ fst (handle_exception ex),
      Inl (snd (handle_exception ex)))"
  using assms by (simp add: make_remote_call_def Let_def)

lemma mrc_response:
  assumes "f_url b = Some u" "f_headers b = Some hs"
    "f_success_callback_handler b = Some scb" "f_error_callback_handler b = Some ecb"
    "derive_route_path e u = Inr rp"
    "make_post_request e u (f_payload b) hs = Inr response"
  shows "make_remote_call e b dt dn =
     (b, [CreateRequestLog \<lparr> data = f_payload b, is_remote_request = True,
             service_name = ''etims'', request_headers = hs, url = u,
             reference_docname = dn, reference_doctype = dt \<rparr>,
          MakePostRequest u (f_payload b) hs]
         @ fst (classify scb ecb response rp dt dn
                 (create_request_log e \<lparr> data = f_payload b, is_remote_request = True,
                    service_name = ''etims'', request_headers = hs, url = u,
                    reference_docname = dn, reference_doctype = dt \<rparr>)),
      snd (classify scb ecb response rp dt dn
                 (create_request_log e \<lparr> data = f_payload b, is_remote_request = True,
                    service_name = ''etims'', request_headers = hs, url = u,
                    reference_docname = dn, reference_doctype = dt \<rparr>)))"
  using assms by (simp add: make_remote_call_def Let_def split: prod.splits)

text \<open>The network call is made exactly when the required fields are set and the URL parses.\<close>

lemma network_call_iff:
  "count is_network_call (trace_of (make_remote_call e b dt dn)) = 1 \<longleftrightarrow>
     (\<exists>u hs scb ecb rp. f_url b = Some u \<and> f_headers b = Some hs
        \<and> f_success_callback_handler b = Some scb \<and> f_error_callback_handler b = Some ecb
        \<and> derive_route_path e u = Inr rp)"
  by (auto simp: make_remote_call_def classify_def handle_exception_def Let_def count_def
        trace_of_def split: option.splits sum.splits prod.splits if_splits)

text \<open>
  Paths that end in an exception other than those of \<^verbatim>\<open>frappe.throw\<close>: a response
  without \<^verbatim>\<open>resultCd\<close>, a successful response without \<^verbatim>\<open>resultDt\<close> (the success
  callback has already run), and an exception of the network helper that no clause catches.
\<close>

lemma missing_result_code:
  assumes "f_url b = Some u" "f_headers b = Some hs"
    "f_success_callback_handler b = Some scb" "f_error_callback_handler b = Some ecb"
    "derive_route_path e u = Inr rp"
    "make_post_request e u (f_payload b) hs = Inr response"
    "response ''resultCd'' = None"
  shows "trace_of (make_remote_call e b dt dn) =
           [CreateRequestLog \<lparr> data = f_payload b, is_remote_request = True,
              service_name = ''etims'', request_headers = hs, url = u,
              reference_docname = dn, reference_doctype = dt \<rparr>,
            MakePostRequest u (f_payload b) hs]
       \<and> outcome_of (make_remote_call e b dt dn) = Inl (KeyError ''resultCd'')"
  using assms(7) unfolding mrc_response[OF assms(1-6)]
  by (simp add: classify_def trace_of_def outcome_of_def)

lemma missing_result_date:
  assumes "f_url b = Some u" "f_headers b = Some hs"
    "f_success_callback_handler b = Some scb" "f_error_callback_handler b = Some ecb"
    "derive_route_path e u = Inr rp"
    "make_post_request e u (f_payload b) hs = Inr response"
    "response ''resultCd'' = Some (JStr ''000'')"
    "response ''resultDt'' = None"
  shows "trace_of (make_remote_call e b dt dn) =
           [CreateRequestLog \<lparr> data = f_payload b, is_remote_request = True,
              service_name = ''etims'', request_headers = hs, url = u,
              reference_docname = dn, reference_doctype = dt \<rparr>,
            MakePostRequest u (f_payload b) hs,
            SuccessCallback scb response]
       \<and> outcome_of (make_remote_call e b dt dn) = Inl (KeyError ''resultDt'')"
  using assms(7,8) unfolding mrc_response[OF assms(1-6)]
  by (simp add: classify_def trace_of_def outcome_of_def)

lemma uncaught_exception:
  assumes "f_url b = Some u" "f_headers b = Some hs"
    "f_success_callback_handler b = Some scb" "f_error_callback_handler b = Some ecb"
    "derive_route_path e u = Inr rp"
    "make_post_request e u (f_payload b) hs = Inl OtherException"
  shows "trace_of (make_remote_call e b dt dn) =
           [CreateRequestLog \<lparr> data = f_payload b, is_remote_request = True,
              service_name = ''etims'', request_headers = hs, url = u,
              reference_docname = dn, reference_doctype = dt \<rparr>,
            MakePostRequest u (f_payload b) hs]
       \<and> outcome_of (make_remote_call e b dt dn) = Inl (Uncaught OtherException)"
  unfolding mrc_fault[OF assms(1-6)]
  by (simp add: handle_exception_def trace_of_def outcome_of_def)

text \<open>At most one callback is called, whatever happens.\<close>

lemma at_most_one_callback:
  "count is_success_call (trace_of (make_remote_call e b dt dn))
     + count is_error_call (trace_of (make_remote_call e b dt dn)) \<le> 1"
  by (auto simp: make_remote_call_def classify_def handle_exception_def Let_def count_def
        trace_of_def split: option.splits sum.splits prod.splits if_splits)

text \<open>The \<^verbatim>\<open>_method\<close> field is not read by \<^verbatim>\<open>make_remote_call\<close>.\<close>

lemma mrc_method_irrelevant:
  "snd (make_remote_call e (set_method m b) dt dn) = snd (make_remote_call e b dt dn)"
  by (simp add: make_remote_call_def set_method_def Let_def
        split: option.splits sum.splits prod.splits)

subsection \<open>Evaluation of the examples\<close>

lemma example_route: "derive_route_path e example_url = Inr ''/endpointName''"
  by code_simp

lemma bad_route: "derive_route_path e ''https://[host/x'' = Inl ValueError"
  by code_simp

lemma configured_fields:
  "f_url configured = Some example_url"
  "f_headers configured = Some example_headers"
  "f_success_callback_handler configured = Some 1"
  "f_error_callback_handler configured = Some 2"
  "f_payload configured = None"
  "f_method configured = ''POST''"
  "f_error configured = None"
  by (simp_all add: configured_def init_def set_url_def set_headers_def
        set_success_callback_def set_error_callback_def)

lemma env_of_post: "make_post_request (env_of a) u p hs = a"
  by (simp add: env_of_def)

lemma env_of_log: "create_request_log (env_of a) args = ''log-0001''"
  by (simp add: env_of_def)

lemma response_ok_fields:
  "response_ok ''resultCd'' = Some (JStr ''000'')"
  "response_ok ''resultDt'' = Some (JStr ''20240101120000'')"
  by (simp_all add: response_ok_def)

lemma response_err_fields:
  "response_err ''resultCd'' = Some (JStr ''910'')"
  "JStr ''910'' \<noteq> JStr ''000''"
  by (simp_all add: response_err_def)

lemma response_no_date_fields:
  "response_no_date ''resultCd'' = Some (JStr ''000'')"
  "response_no_date ''resultDt'' = None"
  by (simp_all add: response_no_date_def)

section \<open>The claims\<close>

text \<open>
  In the theorems below, a dispatch reaches the network call exactly when the four required
  fields are set and \<^verbatim>\<open>urlparse\<close> accepts the URL (\<open>derive_route_path e u = Inr rp\<close>);
  the network call completes with a response when \<open>make_post_request\<close> answers
  \<open>Inr response\<close> and raises when it answers \<open>Inl ex\<close>.
\<close>

text \<open>
  C1 (amended). When the network call completes with a response whose \<^verbatim>\<open>resultCd\<close>
  is \<^verbatim>\<open>"000"\<close> and which carries a \<^verbatim>\<open>resultDt\<close>, the success callback is called
  exactly once, with the whole response, the error callback is not called, and
  \<^verbatim>\<open>update_last_request_date\<close> is called exactly once, with the response's
  \<^verbatim>\<open>resultDt\<close> and the route path derived from the URL. The calls come after the
  request log and the network call, and the method returns normally.
\<close>

theorem success_dispatch:
  assumes "f_url b = Some u" "f_headers b = Some hs"
    "f_success_callback_handler b = Some scb" "f_error_callback_handler b = Some ecb"
    "derive_route_path e u = Inr rp"
    "make_post_request e u (f_payload b) hs = Inr response"
    "response ''resultCd'' = Some (JStr ''000'')"
    "response ''resultDt'' = Some ts"
  shows "trace_of (make_remote_call e b dt dn) =
           [CreateRequestLog \<lparr> data = f_payload b, is_remote_request = True,
              service_name = ''etims'', request_headers = hs, url = u,
              reference_docname = dn, reference_doctype = dt \<rparr>,
            MakePostRequest u (f_payload b) hs,
            SuccessCallback scb response,
            UpdateLastRequestDate ts rp]
       \<and> outcome_of (make_remote_call e b dt dn) = Inr ()
       \<and> count is_success_call (trace_of (make_remote_call e b dt dn)) = 1
       \<and> count is_error_call (trace_of (make_remote_call e b dt dn)) = 0
       \<and> count is_tracker_update (trace_of (make_remote_call e b dt dn)) = 1"
  using assms(7,8) unfolding mrc_response[OF assms(1-6)]
  by (simp add: classify_def trace_of_def outcome_of_def count_def)

theorem success_dispatch_witness:
  "trace_of (make_remote_call (env_of (Inr response_ok)) configured None (Some ''INV-1'')) =
     [CreateRequestLog \<lparr> data = None, is_remote_request = True,
        service_name = ''etims'', request_headers = example_headers, url = example_url,
        reference_docname = Some ''INV-1'', reference_doctype = None \<rparr>,
      MakePostRequest example_url None example_headers,
      SuccessCallback 1 response_ok,
      UpdateLastRequestDate (JStr ''20240101120000'') ''/endpointName'']
   \<and> outcome_of (make_remote_call (env_of (Inr response_ok)) configured None (Some ''INV-1''))
       = Inr ()"
  using success_dispatch [where e = "env_of (Inr response_ok)" and b = configured
      and response = response_ok and ts = "JStr ''20240101120000''" and dt = None
      and dn = "Some ''INV-1''", OF configured_fields(1-4) example_route]
  by (simp add: configured_fields env_of_post response_ok_fields)

text \<open>
  As stated, C1 has the tracker updated for every response whose \<^verbatim>\<open>resultCd\<close> is
  \<^verbatim>\<open>"000"\<close>. The timestamp is read by the subscript \<^verbatim>\<open>response["resultDt"]\<close> after
  the success callback has run: for a response that reports success and carries no
  \<^verbatim>\<open>resultDt\<close> the success callback is called, the subscript raises \<^verbatim>\<open>KeyError\<close>,
  which no clause catches, and the tracker is not updated.
\<close>

theorem success_dispatch_counterexample:
  "response_no_date ''resultCd'' = Some (JStr ''000'')
   \<and> trace_of (make_remote_call (env_of (Inr response_no_date)) configured None None) =
       [CreateRequestLog \<lparr> data = None, is_remote_request = True,
          service_name = ''etims'', request_headers = example_headers, url = example_url,
          reference_docname = None, reference_doctype = None \<rparr>,
        MakePostRequest example_url None example_headers,
        SuccessCallback 1 response_no_date]
   \<and> count is_tracker_update
       (trace_of (make_remote_call (env_of (Inr response_no_date)) configured None None)) = 0
   \<and> outcome_of (make_remote_call (env_of (Inr response_no_date)) configured None None) =
       Inl (KeyError ''resultDt'')"
  by (simp add: make_remote_call_def configured_fields env_of_post example_route
        classify_def response_no_date_fields trace_of_def outcome_of_def count_def)

text \<open>
  C2. When the network call completes with a response whose \<^verbatim>\<open>resultCd\<close> is not
  \<^verbatim>\<open>"000"\<close>, the error callback is called exactly once, with the response itself, the
  derived route path, the \<^verbatim>\<open>doctype\<close> and \<^verbatim>\<open>document_name\<close> that were passed in and
  the name of the request log; the success callback is not called and the tracker is not
  updated.
\<close>

theorem error_dispatch:
  assumes "f_url b = Some u" "f_headers b = Some hs"
    "f_success_callback_handler b = Some scb" "f_error_callback_handler b = Some ecb"
    "derive_route_path e u = Inr rp"
    "make_post_request e u (f_payload b) hs = Inr response"
    "response ''resultCd'' = Some cd"
    "cd \<noteq> JStr ''000''"
  shows "trace_of (make_remote_call e b dt dn) =
           [CreateRequestLog \<lparr> data = f_payload b, is_remote_request = True,
              service_name = ''etims'', request_headers = hs, url = u,
              reference_docname = dn, reference_doctype = dt \<rparr>,
            MakePostRequest u (f_payload b) hs,
            ErrorCallback ecb response rp dt dn
              (create_request_log e \<lparr> data = f_payload b, is_remote_request = True,
                 service_name = ''etims'', request_headers = hs, url = u,
                 reference_docname = dn, reference_doctype = dt \<rparr>)]
       \<and> outcome_of (make_remote_call e b dt dn) = Inr ()
       \<and> count is_error_call (trace_of (make_remote_call e b dt dn)) = 1
       \<and> count is_success_call (trace_of (make_remote_call e b dt dn)) = 0
       \<and> count is_tracker_update (trace_of (make_remote_call e b dt dn)) = 0"
  using assms(7,8) unfolding mrc_response[OF assms(1-6)]
  by (simp add: classify_def trace_of_def outcome_of_def count_def)

theorem error_dispatch_witness:
  "trace_of (make_remote_call (env_of (Inr response_err)) configured
       (Some (DoctypeStr ''Sales Invoice'')) (Some ''INV-1'')) =
     [CreateRequestLog \<lparr> data = None, is_remote_request = True,
        service_name = ''etims'', request_headers = example_headers, url = example_url,
        reference_docname = Some ''INV-1'',
        reference_doctype = Some (DoctypeStr ''Sales Invoice'') \<rparr>,
      MakePostRequest example_url None example_headers,
      ErrorCallback 2 response_err ''/endpointName'' (Some (DoctypeStr ''Sales Invoice''))
        (Some ''INV-1'') ''log-0001'']
   \<and> outcome_of (make_remote_call (env_of (Inr response_err)) configured
       (Some (DoctypeStr ''Sales Invoice'')) (Some ''INV-1'')) = Inr ()"
  using error_dispatch [where e = "env_of (Inr response_err)" and b = configured
      and response = response_err and cd = "JStr ''910''"
      and dt = "Some (DoctypeStr ''Sales Invoice'')"
      and dn = "Some ''INV-1''", OF configured_fields(1-4) example_route]
  by (simp add: configured_fields env_of_post env_of_log response_err_fields)

text \<open>
  C3. When the URL, the headers, the success callback or the error callback is
  \<^verbatim>\<open>None\<close>, \<^verbatim>\<open>make_remote_call\<close> raises the setup error (\<^verbatim>\<open>MandatoryError\<close>, titled
  "Setup Error") before anything else is done: the trace is empty, so no request log is
  created and no network call is made.
\<close>

theorem missing_configuration:
  assumes "f_url b = None \<or> f_headers b = None \<or> f_success_callback_handler b = None
           \<or> f_error_callback_handler b = None"
  shows "outcome_of (make_remote_call e b dt dn) =
           Inl (Thrown ''Please check that all required request parameters are supplied.''
                  MandatoryError ''Setup Error'' True)
       \<and> trace_of (make_remote_call e b dt dn) = []
       \<and> count is_request_log (trace_of (make_remote_call e b dt dn)) = 0
       \<and> count is_network_call (trace_of (make_remote_call e b dt dn)) = 0"
  unfolding mrc_setup[OF assms]
  by (simp add: trace_of_def outcome_of_def count_def setup_error_def)

theorem missing_configuration_witness:
  "outcome_of (make_remote_call (env_of (Inr response_ok))
      (set_success_callback 1 (set_headers example_headers (set_url example_url init)))
      None None) =
     Inl (Thrown ''Please check that all required request parameters are supplied.''
            MandatoryError ''Setup Error'' True)
   \<and> trace_of (make_remote_call (env_of (Inr response_ok))
      (set_success_callback 1 (set_headers example_headers (set_url example_url init)))
      None None) = []"
  using missing_configuration [where e = "env_of (Inr response_ok)"
      and b = "set_success_callback 1 (set_headers example_headers (set_url example_url init))"
      and dt = None and dn = None]
  by (simp add: init_def set_url_def set_headers_def set_success_callback_def)

text \<open>
  C4. When the network call raises one of the three transport faults, neither callback is
  called; the fault is first logged through \<^verbatim>\<open>etims_logger.exception(error, exc_info=True)\<close>
  and then \<^verbatim>\<open>frappe.throw\<close> raises with a message that depends on the kind of fault:
  "Connection failed" for \<^verbatim>\<open>ClientConnectorError\<close>, "Connection reset by peer" for any
  other \<^verbatim>\<open>ClientOSError\<close>, "Timeout Encountered" for \<^verbatim>\<open>TimeoutError\<close>.
\<close>

theorem transport_fault:
  assumes "f_url b = Some u" "f_headers b = Some hs"
    "f_success_callback_handler b = Some scb" "f_error_callback_handler b = Some ecb"
    "derive_route_path e u = Inr rp"
    "make_post_request e u (f_payload b) hs = Inl ex"
    "ex \<noteq> OtherException"
  shows "trace_of (make_remote_call e b dt dn) =
           [CreateRequestLog \<lparr> data = f_payload b, is_remote_request = True,
              service_name = ''etims'', request_headers = hs, url = u,
              reference_docname = dn, reference_doctype = dt \<rparr>,
            MakePostRequest u (f_payload b) hs,
            LoggerException ex True]
       \<and> count is_success_call (trace_of (make_remote_call e b dt dn)) = 0
       \<and> count is_error_call (trace_of (make_remote_call e b dt dn)) = 0
       \<and> (ex = ClientConnectorError \<longrightarrow> outcome_of (make_remote_call e b dt dn) =
             Inl (Thrown ''Connection failed'' (Instance ex) ''Connection Error'' False))
       \<and> (ex = ClientOSError \<longrightarrow> outcome_of (make_remote_call e b dt dn) =
             Inl (Thrown ''Connection reset by peer'' (Instance ex) ''Connection Error'' False))
       \<and> (ex = TimeoutError \<longrightarrow> outcome_of (make_remote_call e b dt dn) =
             Inl (Thrown ''Timeout Encountered'' (Instance ex) ''Timeout Error'' False))"
  using assms(7) unfolding mrc_fault[OF assms(1-6)]
  by (cases ex) (simp_all add: handle_exception_def trace_of_def outcome_of_def count_def)

theorem transport_fault_witness:
  "trace_of (make_remote_call (env_of (Inl ClientOSError)) configured None None) =
     [CreateRequestLog \<lparr> data = None, is_remote_request = True,
        service_name = ''etims'', request_headers = example_headers, url = example_url,
        reference_docname = None, reference_doctype = None \<rparr>,
      MakePostRequest example_url None example_headers,
      LoggerException ClientOSError True]
   \<and> outcome_of (make_remote_call (env_of (Inl ClientOSError)) configured None None) =
       Inl (Thrown ''Connection reset by peer'' (Instance ClientOSError)
              ''Connection Error'' False)"
  using transport_fault [where e = "env_of (Inl ClientOSError)" and b = configured
      and ex = ClientOSError and dt = None and dn = None,
      OF configured_fields(1-4) example_route]
  by (simp add: configured_fields env_of_post)

text \<open>
  C5 (amended). In every execution at most one of the two callbacks is called, never both.
  Exactly one is called when the required fields are set, the URL parses and the network
  call completes with a response that carries a \<^verbatim>\<open>resultCd\<close>. None is called when a
  required field is missing, and none when the network call raises.
\<close>

theorem handler_calls:
  "count is_success_call (trace_of (make_remote_call e b dt dn))
     + count is_error_call (trace_of (make_remote_call e b dt dn)) \<le> 1
   \<and> (f_url b = Some u \<and> f_headers b = Some hs
        \<and> f_success_callback_handler b = Some scb \<and> f_error_callback_handler b = Some ecb
        \<and> derive_route_path e u = Inr rp
        \<and> make_post_request e u (f_payload b) hs = Inr response
        \<and> response ''resultCd'' = Some cd
      \<longrightarrow> count is_success_call (trace_of (make_remote_call e b dt dn))
            + count is_error_call (trace_of (make_remote_call e b dt dn)) = 1)
   \<and> (f_url b = None \<or> f_headers b = None \<or> f_success_callback_handler b = None
        \<or> f_error_callback_handler b = None
      \<longrightarrow> count is_success_call (trace_of (make_remote_call e b dt dn))
            + count is_error_call (trace_of (make_remote_call e b dt dn)) = 0)
   \<and> (f_url b = Some u \<and> f_headers b = Some hs
        \<and> f_success_callback_handler b = Some scb \<and> f_error_callback_handler b = Some ecb
        \<and> derive_route_path e u = Inr rp
        \<and> make_post_request e u (f_payload b) hs = Inl ex
      \<longrightarrow> count is_success_call (trace_of (make_remote_call e b dt dn))
            + count is_error_call (trace_of (make_remote_call e b dt dn)) = 0)"
proof (intro conjI impI)
  show "count is_success_call (trace_of (make_remote_call e b dt dn))
     + count is_error_call (trace_of (make_remote_call e b dt dn)) \<le> 1"
    by (rule at_most_one_callback)
next
  assume a: "f_url b = Some u \<and> f_headers b = Some hs
        \<and> f_success_callback_handler b = Some scb \<and> f_error_callback_handler b = Some ecb
        \<and> derive_route_path e u = Inr rp
        \<and> make_post_request e u (f_payload b) hs = Inr response
        \<and> response ''resultCd'' = Some cd"
  then show "count is_success_call (trace_of (make_remote_call e b dt dn))
            + count is_error_call (trace_of (make_remote_call e b dt dn)) = 1"
    by (simp add: mrc_response[of b u hs scb ecb e rp response] classify_def trace_of_def
          count_def split: option.splits)
next
  assume "f_url b = None \<or> f_headers b = None \<or> f_success_callback_handler b = None
        \<or> f_error_callback_handler b = None"
  then show "count is_success_call (trace_of (make_remote_call e b dt dn))
            + count is_error_call (trace_of (make_remote_call e b dt dn)) = 0"
    by (simp add: mrc_setup trace_of_def count_def)
next
  assume a: "f_url b = Some u \<and> f_headers b = Some hs
        \<and> f_success_callback_handler b = Some scb \<and> f_error_callback_handler b = Some ecb
        \<and> derive_route_path e u = Inr rp
        \<and> make_post_request e u (f_payload b) hs = Inl ex"
  then show "count is_success_call (trace_of (make_remote_call e b dt dn))
            + count is_error_call (trace_of (make_remote_call e b dt dn)) = 0"
    by (simp add: mrc_fault[of b u hs scb ecb e rp ex] handle_exception_def trace_of_def
          count_def)
qed

theorem handler_calls_witness:
  "count is_success_call
      (trace_of (make_remote_call (env_of (Inr response_err)) configured None None))
     + count is_error_call
      (trace_of (make_remote_call (env_of (Inr response_err)) configured None None)) = 1
   \<and> count is_success_call
      (trace_of (make_remote_call (env_of (Inl TimeoutError)) configured None None))
     + count is_error_call
      (trace_of (make_remote_call (env_of (Inl TimeoutError)) configured None None)) = 0
   \<and> count is_success_call (trace_of (make_remote_call (env_of (Inr response_ok)) init None None))
     + count is_error_call (trace_of (make_remote_call (env_of (Inr response_ok)) init None None))
     = 0"
  using handler_calls [where e = "env_of (Inr response_err)" and b = configured
      and u = example_url and hs = example_headers and scb = 1 and ecb = 2
      and rp = "''/endpointName''" and response = response_err and cd = "JStr ''910''"
      and dt = None and dn = None]
    handler_calls [where e = "env_of (Inl TimeoutError)" and b = configured
      and u = example_url and hs = example_headers and scb = 1 and ecb = 2
      and rp = "''/endpointName''" and ex = TimeoutError
      and dt = None and dn = None]
    handler_calls [where e = "env_of (Inr response_ok)" and b = init
      and dt = None and dn = None]
  by (simp add: configured_fields env_of_post response_err_fields example_route init_def)

text \<open>
  As stated, C5 allows no callback only when the network call raises. An unconfigured
  builder already shows otherwise: the setup error is raised, no network call is made and
  no callback is called.
\<close>

theorem handler_calls_counterexample:
  "count is_success_call (trace_of (make_remote_call (env_of (Inr response_ok)) init None None))
     + count is_error_call (trace_of (make_remote_call (env_of (Inr response_ok)) init None None))
     = 0
   \<and> count is_network_call
       (trace_of (make_remote_call (env_of (Inr response_ok)) init None None)) = 0
   \<and> outcome_of (make_remote_call (env_of (Inr response_ok)) init None None)
       = Inl setup_error"
  by (simp add: make_remote_call_def init_def trace_of_def outcome_of_def count_def)

text \<open>
  C6 (amended). The configured method has no influence on a dispatch: whatever
  \<^verbatim>\<open>method\<close> is set to, the trace and the outcome are those of the unchanged builder. The
  network call is always \<^verbatim>\<open>make_post_request(url, payload, headers)\<close>, and the request
  log is created from payload, headers, URL, document name and doctype; neither receives
  the method.
\<close>

theorem method_not_used:
  "snd (make_remote_call e (set_method m b) dt dn) = snd (make_remote_call e b dt dn)
   \<and> (f_url b = Some u \<and> f_headers b = Some hs
        \<and> f_success_callback_handler b = Some scb \<and> f_error_callback_handler b = Some ecb
        \<and> derive_route_path e u = Inr rp
      \<longrightarrow> take 2 (trace_of (make_remote_call e (set_method m b) dt dn)) =
            [CreateRequestLog \<lparr> data = f_payload b, is_remote_request = True,
               service_name = ''etims'', request_headers = hs, url = u,
               reference_docname = dn, reference_doctype = dt \<rparr>,
             MakePostRequest u (f_payload b) hs])"
proof (intro conjI impI)
  show "snd (make_remote_call e (set_method m b) dt dn) = snd (make_remote_call e b dt dn)"
    by (rule mrc_method_irrelevant)
next
  assume a: "f_url b = Some u \<and> f_headers b = Some hs
        \<and> f_success_callback_handler b = Some scb \<and> f_error_callback_handler b = Some ecb
        \<and> derive_route_path e u = Inr rp"
  have "trace_of (make_remote_call e (set_method m b) dt dn)
          = trace_of (make_remote_call e b dt dn)"
    using mrc_method_irrelevant[of e m b dt dn] by (simp add: trace_of_def)
  moreover have "take 2 (trace_of (make_remote_call e b dt dn)) =
            [CreateRequestLog \<lparr> data = f_payload b, is_remote_request = True,
               service_name = ''etims'', request_headers = hs, url = u,
               reference_docname = dn, reference_doctype = dt \<rparr>,
             MakePostRequest u (f_payload b) hs]"
  proof (cases "make_post_request e u (f_payload b) hs")
    case (Inl ex)
    with a show ?thesis
      by (simp add: mrc_fault[of b u hs scb ecb e rp ex] trace_of_def)
  next
    case (Inr response)
    with a show ?thesis
      by (simp add: mrc_response[of b u hs scb ecb e rp response] trace_of_def)
  qed
  ultimately show "take 2 (trace_of (make_remote_call e (set_method m b) dt dn)) =
            [CreateRequestLog \<lparr> data = f_payload b, is_remote_request = True,
               service_name = ''etims'', request_headers = hs, url = u,
               reference_docname = dn, reference_doctype = dt \<rparr>,
             MakePostRequest u (f_payload b) hs]"
    by simp
qed

theorem method_not_used_witness:
  "take 2 (trace_of (make_remote_call (env_of (Inr response_ok))
       (set_method ''PUT'' configured) None None)) =
     [CreateRequestLog \<lparr> data = None, is_remote_request = True,
        service_name = ''etims'', request_headers = example_headers, url = example_url,
        reference_docname = None, reference_doctype = None \<rparr>,
      MakePostRequest example_url None example_headers]"
  using method_not_used [where e = "env_of (Inr response_ok)" and b = configured
      and m = "''PUT''" and u = example_url and hs = example_headers and scb = 1 and ecb = 2
      and rp = "''/endpointName''" and dt = None and dn = None]
  by (simp add: configured_fields example_route)

text \<open>
  As stated, C6 has the network call use the configured method and the request log record
  it. With the method set to \<^verbatim>\<open>GET\<close> the dispatch is the same POST call and the same
  request log as with the default.
\<close>

theorem method_not_used_counterexample:
  "get_method (set_method ''GET'' configured) = ''GET''
   \<and> trace_of (make_remote_call (env_of (Inr response_ok)) (set_method ''GET'' configured)
        None None) =
       [CreateRequestLog \<lparr> data = None, is_remote_request = True,
          service_name = ''etims'', request_headers = example_headers, url = example_url,
          reference_docname = None, reference_doctype = None \<rparr>,
        MakePostRequest example_url None example_headers,
        SuccessCallback 1 response_ok,
        UpdateLastRequestDate (JStr ''20240101120000'') ''/endpointName'']
   \<and> trace_of (make_remote_call (env_of (Inr response_ok)) (set_method ''GET'' configured)
        None None) =
     trace_of (make_remote_call (env_of (Inr response_ok)) configured None None)"
  by (simp add: make_remote_call_def set_method_def get_method_def configured_fields
        env_of_post example_route classify_def response_ok_fields trace_of_def)

text \<open>
  C7 (amended). When the required fields are set and \<^verbatim>\<open>urlparse\<close> accepts the URL, the
  request log is created exactly once and is the first thing done, directly followed by the
  one network call, whether that call returns or raises. When \<^verbatim>\<open>urlparse\<close> rejects the
  URL, its \<^verbatim>\<open>ValueError\<close> leaves the method before the request log and the network call.
\<close>

theorem request_log_first:
  "(f_url b = Some u \<and> f_headers b = Some hs
      \<and> f_success_callback_handler b = Some scb \<and> f_error_callback_handler b = Some ecb
      \<and> derive_route_path e u = Inr rp
    \<longrightarrow> take 2 (trace_of (make_remote_call e b dt dn)) =
          [CreateRequestLog \<lparr> data = f_payload b, is_remote_request = True,
             service_name = ''etims'', request_headers = hs, url = u,
             reference_docname = dn, reference_doctype = dt \<rparr>,
           MakePostRequest u (f_payload b) hs]
        \<and> count is_request_log (trace_of (make_remote_call e b dt dn)) = 1
        \<and> count is_network_call (trace_of (make_remote_call e b dt dn)) = 1)
   \<and> (f_url b = Some u \<and> f_headers b = Some hs
      \<and> f_success_callback_handler b = Some scb \<and> f_error_callback_handler b = Some ecb
      \<and> derive_route_path e u = Inl err
    \<longrightarrow> trace_of (make_remote_call e b dt dn) = []
        \<and> outcome_of (make_remote_call e b dt dn) = Inl err)"
proof (intro conjI impI)
  assume a: "f_url b = Some u \<and> f_headers b = Some hs
      \<and> f_success_callback_handler b = Some scb \<and> f_error_callback_handler b = Some ecb
      \<and> derive_route_path e u = Inr rp"
  show "take 2 (trace_of (make_remote_call e b dt dn)) =
          [CreateRequestLog \<lparr> data = f_payload b, is_remote_request = True,
             service_name = ''etims'', request_headers = hs, url = u,
             reference_docname = dn, reference_doctype = dt \<rparr>,
           MakePostRequest u (f_payload b) hs]"
  proof (cases "make_post_request e u (f_payload b) hs")
    case (Inl ex)
    with a show ?thesis
      by (simp add: mrc_fault[of b u hs scb ecb e rp ex] trace_of_def)
  next
    case (Inr response)
    with a show ?thesis
      by (simp add: mrc_response[of b u hs scb ecb e rp response] trace_of_def)
  qed
  show "count is_request_log (trace_of (make_remote_call e b dt dn)) = 1"
  proof (cases "make_post_request e u (f_payload b) hs")
    case (Inl ex)
    with a show ?thesis
      by (simp add: mrc_fault[of b u hs scb ecb e rp ex] trace_of_def count_def
            handle_exception_def)
  next
    case (Inr response)
    with a show ?thesis
      by (simp add: mrc_response[of b u hs scb ecb e rp response] trace_of_def count_def
            classify_def split: option.splits)
  qed
  show "count is_network_call (trace_of (make_remote_call e b dt dn)) = 1"
  proof (cases "make_post_request e u (f_payload b) hs")
    case (Inl ex)
    with a show ?thesis
      by (simp add: mrc_fault[of b u hs scb ecb e rp ex] trace_of_def count_def
            handle_exception_def)
  next
    case (Inr response)
    with a show ?thesis
      by (simp add: mrc_response[of b u hs scb ecb e rp response] trace_of_def count_def
            classify_def split: option.splits)
  qed
next
  assume a: "f_url b = Some u \<and> f_headers b = Some hs
      \<and> f_success_callback_handler b = Some scb \<and> f_error_callback_handler b = Some ecb
      \<and> derive_route_path e u = Inl err"
  then show "trace_of (make_remote_call e b dt dn) = []"
    by (simp add: mrc_parse_error[of b u hs scb ecb e err] trace_of_def)
  from a show "outcome_of (make_remote_call e b dt dn) = Inl err"
    by (simp add: mrc_parse_error[of b u hs scb ecb e err] outcome_of_def)
qed

theorem request_log_first_witness:
  "take 2 (trace_of (make_remote_call (env_of (Inl ClientConnectorError)) configured
       None None)) =
     [CreateRequestLog \<lparr> data = None, is_remote_request = True,
        service_name = ''etims'', request_headers = example_headers, url = example_url,
        reference_docname = None, reference_doctype = None \<rparr>,
      MakePostRequest example_url None example_headers]
   \<and> count is_request_log (trace_of (make_remote_call (env_of (Inl ClientConnectorError))
        configured None None)) = 1
   \<and> trace_of (make_remote_call (env_of (Inr response_ok))
        (set_url ''https://[host/x'' configured) None None) = []"
  using request_log_first [where e = "env_of (Inl ClientConnectorError)" and b = configured
      and u = example_url and hs = example_headers and scb = 1 and ecb = 2
      and rp = "''/endpointName''" and dt = None and dn = None]
    request_log_first [where e = "env_of (Inr response_ok)"
      and b = "set_url ''https://[host/x'' configured"
      and u = "''https://[host/x''" and hs = example_headers and scb = 1 and ecb = 2
      and err = ValueError and dt = None and dn = None]
  by (simp add: configured_fields example_route bad_route set_url_def)

text \<open>
  As stated, C7 promises the request log to every dispatch that passes the check of the
  required fields. \<^verbatim>\<open>urlparse\<close> runs between that check and the request log, and it
  raises \<^verbatim>\<open>ValueError\<close> on an unmatched square bracket in the network location: with
  the URL \<^verbatim>\<open>https://[host/x\<close> all four fields are set and no request log is created.
\<close>

theorem request_log_first_counterexample:
  "f_url (set_url ''https://[host/x'' configured) \<noteq> None
   \<and> f_headers (set_url ''https://[host/x'' configured) \<noteq> None
   \<and> f_success_callback_handler (set_url ''https://[host/x'' configured) \<noteq> None
   \<and> f_error_callback_handler (set_url ''https://[host/x'' configured) \<noteq> None
   \<and> count is_request_log (trace_of (make_remote_call (env_of (Inr response_ok))
        (set_url ''https://[host/x'' configured) None None)) = 0
   \<and> outcome_of (make_remote_call (env_of (Inr response_ok))
        (set_url ''https://[host/x'' configured) None None) = Inl ValueError"
  by (simp add: make_remote_call_def set_url_def configured_fields bad_route trace_of_def
        outcome_of_def count_def)



text \<open>
  C9 (amended). The setter of \<^verbatim>\<open>method\<close> stores every value verbatim, an enumerated
  verb or not, the getter returns it, and no other field changes.
\<close>

theorem set_method_verbatim:
  "get_method (set_method v b) = v
   \<and> f_url (set_method v b) = f_url b \<and> f_payload (set_method v b) = f_payload b
   \<and> f_headers (set_method v b) = f_headers b \<and> f_error (set_method v b) = f_error b
   \<and> f_success_callback_handler (set_method v b) = f_success_callback_handler b
   \<and> f_error_callback_handler (set_method v b) = f_error_callback_handler b"
  by (simp add: get_method_def set_method_def)

theorem set_method_verbatim_witness:
  "get_method (set_method ''PATCH'' init) = ''PATCH''
   \<and> get_method (set_method ''no verb'' init) = ''no verb''"
  using set_method_verbatim [of "''PATCH''" init] set_method_verbatim [of "''no verb''" init]
  by simp

text \<open>
  As stated, C9 has the setter refuse a value that is not an enumerated verb. The setter is
  a plain assignment: \<^verbatim>\<open>TRACE\<close> is not among the verbs and is stored.
\<close>

theorem set_method_verbatim_counterexample:
  "''TRACE'' \<notin> set enumerated_verbs \<and> get_method (set_method ''TRACE'' init) = ''TRACE''"
  by (simp add: enumerated_verbs_def get_method_def set_method_def)

text \<open>
  C10 (amended). \<^verbatim>\<open>make_remote_call\<close> leaves the builder as it was, on every path:
  URL, method, payload, headers, both callbacks and \<^verbatim>\<open>_error\<close> keep their values. The
  \<^verbatim>\<open>_error\<close> field is written by no operation of the class other than its own setter.
\<close>

theorem builder_frame:
  "fst (make_remote_call e b dt dn) = b
   \<and> ((\<forall>v. op \<noteq> SetError v) \<longrightarrow> f_error (perform e op b) = f_error b)"
proof (intro conjI impI)
  show "fst (make_remote_call e b dt dn) = b"
    by (simp add: make_remote_call_def Let_def split: option.splits sum.splits prod.splits)
  assume n: "\<forall>v. op \<noteq> SetError v"
  have mm: "\<And>dt dn. fst (make_remote_call e b dt dn) = b"
    by (simp add: make_remote_call_def Let_def split: option.splits sum.splits prod.splits)
  from n show "f_error (perform e op b) = f_error b"
    by (cases op) (simp_all add: mm set_method_def set_url_def set_payload_def set_headers_def
        set_success_callback_def set_error_callback_def)
qed

theorem builder_frame_witness:
  "fst (make_remote_call (env_of (Inl TimeoutError)) configured None None) = configured
   \<and> f_error (perform (env_of (Inr response_ok)) (MakeRemoteCall None None) configured)
       = f_error configured"
  using builder_frame [where e = "env_of (Inl TimeoutError)" and b = configured
      and dt = None and dn = None and op = Getter]
    builder_frame [where e = "env_of (Inr response_ok)" and b = configured
      and op = "MakeRemoteCall None None"]
  by simp

text \<open>
  As stated, C10 has no operation of the class write \<^verbatim>\<open>_error\<close>. The setter of the
  \<^verbatim>\<open>error\<close> property is an operation of the class and writes it.
\<close>

theorem builder_frame_counterexample:
  "get_error (perform (env_of (Inr response_ok)) (SetError ''late'') init) = Some ''late''
   \<and> get_error init = None"
  by (simp add: get_error_def set_error_def init_def)

end
